theory Spec2Isabelle
  imports Main
begin

section \<open>The block indentation plugin (indent/indentblock)\<close>

text \<open>
  A shallow embedding of \<^verbatim>\<open>packages/ckeditor5-indent/src/indentblock.ts\<close>: the class
  \<^verbatim>\<open>IndentBlock\<close> with its constructor, \<^verbatim>\<open>init\<close>, \<^verbatim>\<open>afterInit\<close> and the two private
  conversion set-ups. The plugin mutates registries of the editor (configuration,
  conversion, commands, schema); here the editor is a record that every method takes
  and returns, paired with the exception raised, if any: a JavaScript exception stops
  the method but keeps the mutations made before it.
\<close>

subsection \<open>Values and errors\<close>

datatype error =
    SyntaxError
  | TypeError
  | DuplicateCommand string
  | SchemaCannotExtendMissingItem string

datatype direction = Forward | Backward

datatype language_direction = Ltr | Rtl

text \<open>
  The \<^verbatim>\<open>indentBlock\<close> configuration object. Every field may be undefined (\<open>None\<close>):
  the source reads \<^verbatim>\<open>attribute\<close>, \<^verbatim>\<open>offset\<close> and \<^verbatim>\<open>unit\<close> under a non-null assertion
  \<^verbatim>\<open>!\<close>, which has no effect at run time, and tests \<^verbatim>\<open>classes\<close> for truthiness.
  The numeric \<^verbatim>\<open>offset\<close> is only passed on, never computed with; it is an integer here.
\<close>

record indent_block_config =
  attribute :: "string option"
  offset :: "int option"
  unit :: "string option"
  classes :: "string list option"

text \<open>JavaScript truthiness of an optional string: undefined and the empty string are falsy.\<close>

definition truthy :: "string option \<Rightarrow> bool" where
  "truthy v = (case v of None \<Rightarrow> False | Some s \<Rightarrow> s \<noteq> [])"

subsection \<open>View elements and the style pattern\<close>

text \<open>
  A view element as the conversion rules see it: its name and its inline styles, a
  value per style property. \<^verbatim>\<open>getStyle\<close> returns the value of a property or undefined;
  \<^verbatim>\<open>is( 'element', name )\<close> compares the element's name.
\<close>

record view_element =
  name :: string
  styles :: "string \<rightharpoonup> string"

definition getStyle :: "view_element \<Rightarrow> string \<Rightarrow> string option" where
  "getStyle el property = styles el property"

definition is_element :: "view_element \<Rightarrow> string \<Rightarrow> bool" where
  "is_element el n = (name el = n)"

text \<open>
  The regular expression of the upcast pattern is \<^verbatim>\<open>/[\s\S]+/\<close>: one or more characters of
  a class that is the union of \<^verbatim>\<open>\s\<close> (white space) and \<^verbatim>\<open>\S\<close> (not white space). It is not
  anchored, so it is searched for anywhere in the value.
\<close>

datatype char_class = WhiteSpace | NonWhiteSpace

datatype regexp = OneOrMore "char_class list"

definition is_white_space :: "char \<Rightarrow> bool" where
  "is_white_space c = (of_char c \<in> {9, 10, 11, 12, 13, 32, 160 :: nat})"

fun in_class :: "char_class \<Rightarrow> char \<Rightarrow> bool" where
  "in_class WhiteSpace c = is_white_space c"
| "in_class NonWhiteSpace c = (\<not> is_white_space c)"

fun regexp_test :: "regexp \<Rightarrow> string \<Rightarrow> bool" where
  "regexp_test (OneOrMore cs) s = list_ex (\<lambda>c. list_ex (\<lambda>k. in_class k c) cs) s"

definition any_characters :: regexp where
  "any_characters = OneOrMore [WhiteSpace, NonWhiteSpace]"

subsection \<open>Conversion rules\<close>

text \<open>
  What a downcast emits, or a class definition maps to: the view attribute's key and
  its value, a style object (property and value pairs) or a list of class names.
\<close>

datatype descriptor_value = Styles "(string \<times> string) list" | Classes "string list"

type_synonym attribute_descriptor = "string \<times> descriptor_value"

text \<open>
  The definition object built by \<^verbatim>\<open>_setupConversionUsingClasses\<close>:
  \<^verbatim>\<open>model: { key, values }\<close> and \<^verbatim>\<open>view\<close>, an object indexed by class name.
\<close>

record classes_definition =
  model_key :: string
  model_values :: "string list"
  view_of :: "string \<rightharpoonup> attribute_descriptor"

text \<open>
  A registered rule. The upcast rule holds the style patterns of its \<^verbatim>\<open>view\<close>, the
  model key and the \<^verbatim>\<open>value\<close> callback; the downcast rule holds the model key and the
  \<^verbatim>\<open>view\<close> callback; the two-way rule holds its definition object.
\<close>

datatype conversion_rule =
    Upcast "(string \<times> regexp) list" string "view_element \<Rightarrow> string option"
  | Downcast string "string \<Rightarrow> attribute_descriptor"
  | TwoWay classes_definition

subsection \<open>Commands and the schema\<close>

datatype behavior =
    IndentUsingClasses direction "string list"
  | IndentUsingOffset direction "string option" "int option" "string option"

text \<open>
  Commands are kept by value: a multi-command holds its children in registration
  order. The source holds them by reference; the two agree as long as \<^verbatim>\<open>'indent'\<close> and
  \<^verbatim>\<open>'outdent'\<close> name two different objects, as they do when the indent plugin creates them.
\<close>

datatype command =
    IndentBlockCommand behavior
  | MultiCommand "command list"

record model_schema =
  allowed :: "string \<rightharpoonup> string set"
  attributeProperties :: "string \<rightharpoonup> (string \<rightharpoonup> bool)"

datatype style_processor_rules = AddMarginRules

record heading_option =
  model :: string
  title :: string

subsection \<open>The editor\<close>

text \<open>
  The parts of the editor the plugin reads and writes. \<^verbatim>\<open>editor.indentBlock\<close> is a
  property of the editor itself, read by \<^verbatim>\<open>_setupConversionUsingOffset\<close>; its declaration
  is not part of the plugin, and it is given the shape of the configuration object, of
  which only \<^verbatim>\<open>attribute\<close> is read.
\<close>

record editor =
  config_indentBlock :: indent_block_config
  config_heading_options :: "heading_option list option"
  indentBlock :: indent_block_config
  contentLanguageDirection :: language_direction
  conversion :: "conversion_rule list"
  styleProcessorRules :: "style_processor_rules list"
  commands :: "string \<rightharpoonup> command"
  schema :: model_schema

type_synonym outcome = "error option \<times> editor"

definition and_then :: "outcome \<Rightarrow> (editor \<Rightarrow> outcome) \<Rightarrow> outcome" where
  "and_then r f = (case r of (Some err, e) \<Rightarrow> (Some err, e) | (None, e) \<Rightarrow> f e)"

subsection \<open>The registries the plugin calls\<close>

text \<open>
  Modelled from the spec: the command registry (\<^verbatim>\<open>editor.commands\<close>, of the core package) with
  \<^verbatim>\<open>add( name, command )\<close> and \<^verbatim>\<open>get( name )\<close>, the latter being the lookup
  \<open>commands e name\<close>. Registering two commands under the same name is a fatal error
  reported at once.
\<close>

definition commands_add :: "string \<Rightarrow> command \<Rightarrow> editor \<Rightarrow> outcome" where
  "commands_add n c e =
     (case commands e n of
        Some _ \<Rightarrow> (Some (DuplicateCommand n), e)
      | None \<Rightarrow> (None, e\<lparr>commands := (commands e)(n \<mapsto> c)\<rparr>))"

text \<open>
  Modelled from the spec: \<^verbatim>\<open>MultiCommand.registerChildCommand\<close> (of the core package) appends
  the child to the ordered list of children of the multi-command. The receiver is what
  \<^verbatim>\<open>editor.commands.get( parent )\<close> returned: calling the method on undefined, or on a
  command that is not a multi-command, is a TypeError, and so is registering undefined.
\<close>

definition registerChildCommand :: "string \<Rightarrow> command option \<Rightarrow> editor \<Rightarrow> outcome" where
  "registerChildCommand parent child e =
     (case commands e parent of
        Some (MultiCommand children) \<Rightarrow>
          (case child of
             Some c \<Rightarrow> (None, e\<lparr>commands := (commands e)(parent \<mapsto> MultiCommand (children @ [c]))\<rparr>)
           | None \<Rightarrow> (Some TypeError, e))
      | _ \<Rightarrow> (Some TypeError, e))"

text \<open>
  Modelled from the spec: the schema (\<^verbatim>\<open>editor.model.schema\<close>, of the engine package) maps an
  element name to the set of attribute names allowed on it, and an attribute name to a
  property bag. \<^verbatim>\<open>isRegistered\<close> tells whether the element has an entry; \<^verbatim>\<open>extend\<close> adds
  to the allowed attributes of a registered element and fails fast on a missing one;
  \<^verbatim>\<open>setAttributeProperties\<close> adds the given properties to the bag of the attribute.
\<close>

definition isRegistered :: "model_schema \<Rightarrow> string \<Rightarrow> bool" where
  "isRegistered s elementName = (allowed s elementName \<noteq> None)"

definition extend :: "string \<Rightarrow> string \<Rightarrow> model_schema \<Rightarrow> error + model_schema" where
  "extend elementName allowAttributes s =
     (case allowed s elementName of
        None \<Rightarrow> Inl (SchemaCannotExtendMissingItem elementName)
      | Some attrs \<Rightarrow> Inr (s\<lparr>allowed := (allowed s)(elementName \<mapsto> insert allowAttributes attrs)\<rparr>))"

definition setAttributeProperties ::
  "string \<Rightarrow> (string \<rightharpoonup> bool) \<Rightarrow> model_schema \<Rightarrow> model_schema" where
  "setAttributeProperties attributeName props s =
     s\<lparr>attributeProperties := (attributeProperties s)
          (attributeName \<mapsto>
             (case attributeProperties s attributeName of
                None \<Rightarrow> props
              | Some bag \<Rightarrow> bag ++ props))\<rparr>"

subsection \<open>The constructor\<close>

text \<open>
  The object literal handed to \<^verbatim>\<open>editor.config.define\<close>, as the source spells it
  (lines 35 to 39): each property definition is the property name, the character that
  separates it from the value (by its code point) and the value. Line 36 separates
  \<^verbatim>\<open>attribute\<close> from its value with U+FF1A, the full-width colon; lines 37 and 38 use
  U+003A, the colon of the language.
\<close>

datatype literal_value = StringLiteral string | NumericLiteral int

type_synonym property_definition = "string \<times> nat \<times> literal_value"

definition indentBlock_defaults :: "property_definition list" where
  "indentBlock_defaults =
     [(''attribute'', 0xFF1A, StringLiteral ''margin-left''),
      (''offset'', 0x3A, NumericLiteral 40),
      (''unit'', 0x3A, StringLiteral ''px'')]"

text \<open>
  An object literal is a list of \<^verbatim>\<open>name : value\<close> definitions; any other character after
  the property name is an unexpected token and the program is rejected.
\<close>

fun object_literal :: "property_definition list \<Rightarrow> error + (string \<rightharpoonup> literal_value)" where
  "object_literal [] = Inr Map.empty"
| "object_literal ((k, separator, v) # rest) =
     (if separator = 0x3A then
        (case object_literal rest of
           Inl err \<Rightarrow> Inl err
         | Inr obj \<Rightarrow> Inr (obj(k \<mapsto> v)))
      else Inl SyntaxError)"

text \<open>
  Modelled from the spec: the configuration store (\<^verbatim>\<open>editor.config\<close>, of the utils package).
  \<^verbatim>\<open>define\<close> supplies the default of every field that the user's configuration leaves
  undefined.
\<close>

definition config_define :: "(string \<rightharpoonup> literal_value) \<Rightarrow> indent_block_config \<Rightarrow> indent_block_config" where
  "config_define defaults c =
     c\<lparr>attribute :=
         (case attribute c of
            Some a \<Rightarrow> Some a
          | None \<Rightarrow> (case defaults ''attribute'' of Some (StringLiteral s) \<Rightarrow> Some s | _ \<Rightarrow> None)),
       offset :=
         (case offset c of
            Some n \<Rightarrow> Some n
          | None \<Rightarrow> (case defaults ''offset'' of Some (NumericLiteral n) \<Rightarrow> Some n | _ \<Rightarrow> None)),
       unit :=
         (case unit c of
            Some u \<Rightarrow> Some u
          | None \<Rightarrow> (case defaults ''unit'' of Some (StringLiteral s) \<Rightarrow> Some s | _ \<Rightarrow> None))\<rparr>"

definition constructor :: "editor \<Rightarrow> outcome" where
  "constructor e =
     (case object_literal indentBlock_defaults of
        Inl err \<Rightarrow> (Some err, e)
      | Inr defaults \<Rightarrow>
          (None, e\<lparr>config_indentBlock := config_define defaults (config_indentBlock e)\<rparr>))"

subsection \<open>Conversion set-up\<close>

text \<open>\<^verbatim>\<open>_setupConversionUsingOffset\<close> (lines 125 to 163).\<close>

definition marginProperty :: "editor \<Rightarrow> string" where
  "marginProperty e =
     (if truthy (attribute (indentBlock e)) then ''text-indent''
      else if contentLanguageDirection e = Rtl then ''margin-right''
      else ''margin-left'')"

definition upcast_value :: "string \<Rightarrow> view_element \<Rightarrow> string option" where
  "upcast_value property viewElement =
     (if \<not> is_element viewElement ''li'' then getStyle viewElement property else None)"

definition downcast_view :: "string \<Rightarrow> string \<Rightarrow> attribute_descriptor" where
  "downcast_view property modelAttributeValue =
     (''style'', Styles [(property, modelAttributeValue)])"

definition setupConversionUsingOffset :: "editor \<Rightarrow> editor" where
  "setupConversionUsingOffset e =
     (let property = marginProperty e in
      e\<lparr>conversion := conversion e @
           [Upcast [(property, any_characters)] ''blockIndent'' (upcast_value property),
            Downcast ''blockIndent'' (downcast_view property)]\<rparr>)"

text \<open>\<^verbatim>\<open>_setupConversionUsingClasses\<close> (lines 168 to 189); the loop over the class names first.\<close>

fun for_className :: "string list \<Rightarrow> classes_definition \<Rightarrow> classes_definition" where
  "for_className [] d = d"
| "for_className (className # rest) d =
     for_className rest
       (d\<lparr>model_values := model_values d @ [className],
          view_of := (view_of d)(className \<mapsto> (''class'', Classes [className]))\<rparr>)"

definition setupConversionUsingClasses :: "string list \<Rightarrow> editor \<Rightarrow> editor" where
  "setupConversionUsingClasses cs e =
     (let d = for_className cs
                \<lparr>model_key = ''blockIndent'', model_values = [], view_of = Map.empty\<rparr>
      in e\<lparr>conversion := conversion e @ [TwoWay d]\<rparr>)"

subsection \<open>init\<close>

text \<open>The two branches of \<^verbatim>\<open>init\<close> (lines 63 to 92), then the test that chooses one.\<close>

definition init_using_classes :: "string list \<Rightarrow> editor \<Rightarrow> outcome" where
  "init_using_classes cs e =
     and_then (None, setupConversionUsingClasses cs e) (\<lambda>e1.
     and_then (commands_add ''indentBlock''
                 (IndentBlockCommand (IndentUsingClasses Forward cs)) e1) (\<lambda>e2.
     commands_add ''outdentBlock''
       (IndentBlockCommand (IndentUsingClasses Backward cs)) e2))"

definition init_using_offset :: "indent_block_config \<Rightarrow> editor \<Rightarrow> outcome" where
  "init_using_offset configuration e =
     and_then (None, e\<lparr>styleProcessorRules := styleProcessorRules e @ [AddMarginRules]\<rparr>) (\<lambda>e0.
     and_then (None, setupConversionUsingOffset e0) (\<lambda>e1.
     and_then (commands_add ''indentBlock''
                 (IndentBlockCommand (IndentUsingOffset Forward
                    (attribute configuration) (offset configuration) (unit configuration))) e1) (\<lambda>e2.
     commands_add ''outdentBlock''
       (IndentBlockCommand (IndentUsingOffset Backward
          (attribute configuration) (offset configuration) (unit configuration))) e2)))"

text \<open>
  \<^verbatim>\<open>configuration.classes && configuration.classes.length\<close> is truthy when the list is
  defined and its length is not zero.
\<close>

definition init :: "editor \<Rightarrow> outcome" where
  "init e =
     (let configuration = config_indentBlock e in
      case classes configuration of
        None \<Rightarrow> init_using_offset configuration e
      | Some cs \<Rightarrow>
          if length cs \<noteq> 0 then init_using_classes cs e
          else init_using_offset configuration e)"

subsection \<open>afterInit\<close>

definition DEFAULT_ELEMENTS :: "string list" where
  "DEFAULT_ELEMENTS =
     [''paragraph'', ''heading1'', ''heading2'', ''heading3'', ''heading4'', ''heading5'',
      ''heading6'']"

text \<open>
  \<^verbatim>\<open>options && options.map( option => option.model )\<close>, then
  \<^verbatim>\<open>configuredElements || DEFAULT_ELEMENTS\<close>: an array, even an empty one, is truthy.
\<close>

definition knownElements :: "editor \<Rightarrow> string list" where
  "knownElements e =
     (let options = config_heading_options e;
          configuredElements = map_option (map model) options
      in case configuredElements of
           Some elements \<Rightarrow> elements
         | None \<Rightarrow> DEFAULT_ELEMENTS)"

text \<open>The \<^verbatim>\<open>forEach\<close> of lines 110 to 114.\<close>

fun forEach_elementName :: "string list \<Rightarrow> editor \<Rightarrow> outcome" where
  "forEach_elementName [] e = (None, e)"
| "forEach_elementName (elementName # rest) e =
     (if isRegistered (schema e) elementName then
        (case extend elementName ''blockIndent'' (schema e) of
           Inl err \<Rightarrow> (Some err, e)
         | Inr s \<Rightarrow> forEach_elementName rest (e\<lparr>schema := s\<rparr>))
      else forEach_elementName rest e)"

text \<open>
  \<^verbatim>\<open>afterInit\<close> (lines 98 to 120). The source fetches the two multi-commands at lines 102
  and 103 and calls them at lines 118 and 119; nothing in between touches the command
  registry, so they are looked up by name where they are called.
\<close>

definition afterInit :: "editor \<Rightarrow> outcome" where
  "afterInit e =
     and_then (forEach_elementName (knownElements e) e) (\<lambda>e1.
     and_then (None, e1\<lparr>schema :=
                 setAttributeProperties ''blockIndent'' [''isFormatting'' \<mapsto> True] (schema e1)\<rparr>) (\<lambda>e2.
     and_then (registerChildCommand ''indent'' (commands e2 ''indentBlock'') e2) (\<lambda>e3.
     registerChildCommand ''outdent'' (commands e3 ''outdentBlock'') e3)))"

subsection \<open>Applying the registered rules\<close>

text \<open>
  Modelled from the spec: the conversion registry (of the engine package) holds each rule
  as a matcher and a transform. An upcast rule applies to a view element when every style
  pattern of the rule finds its property on the element with a value the pattern
  accepts; the model attribute then takes what the \<^verbatim>\<open>value\<close> callback returns, and stays
  unset when the callback returns undefined. A downcast rule turns the value of its model
  attribute into a view attribute, which is then set on the view element. View elements
  carry their styles only, not their classes: the two-way class rule takes no part in
  \<open>upcast\<close>, and \<open>set_attribute\<close> sets style attributes only.
\<close>

definition matches_styles :: "(string \<times> regexp) list \<Rightarrow> view_element \<Rightarrow> bool" where
  "matches_styles patterns el =
     list_all (\<lambda>(property, re).
        case getStyle el property of None \<Rightarrow> False | Some v \<Rightarrow> regexp_test re v) patterns"

fun upcast :: "conversion_rule \<Rightarrow> view_element \<Rightarrow> (string \<times> string) option" where
  "upcast (Upcast patterns k value_of) el =
     (if matches_styles patterns el then map_option (Pair k) (value_of el) else None)"
| "upcast (Downcast k view_fn) el = None"
| "upcast (TwoWay d) el = None"

fun downcast :: "conversion_rule \<Rightarrow> string \<times> string \<Rightarrow> attribute_descriptor option" where
  "downcast (Downcast k view_fn) (k', v) = (if k' = k then Some (view_fn v) else None)"
| "downcast (TwoWay d) (k', v) = (if k' = model_key d then view_of d v else None)"
| "downcast (Upcast patterns k value_of) (k', v) = None"

fun set_attribute :: "attribute_descriptor \<Rightarrow> view_element \<Rightarrow> view_element" where
  "set_attribute (k, Styles kvs) el =
     (if k = ''style'' then el\<lparr>styles := styles el ++ map_of kvs\<rparr> else el)"
| "set_attribute (k, Classes cs) el = el"

subsection \<open>An editor for the examples\<close>

text \<open>
  An editor before the plugin is loaded: no user configuration, left-to-right content,
  the two multi-commands of the indent plugin without children, and paragraphs and
  first-level headings registered in the schema.
\<close>

definition example_editor :: editor where
  "example_editor =
     \<lparr>config_indentBlock = \<lparr>attribute = None, offset = None, unit = None, classes = None\<rparr>,
      config_heading_options = None,
      indentBlock = \<lparr>attribute = None, offset = None, unit = None, classes = None\<rparr>,
      contentLanguageDirection = Ltr,
      conversion = [],
      styleProcessorRules = [],
      commands = [''indent'' \<mapsto> MultiCommand [], ''outdent'' \<mapsto> MultiCommand []],
      schema = \<lparr>allowed = [''paragraph'' \<mapsto> {}, ''heading1'' \<mapsto> {}],
                attributeProperties = Map.empty\<rparr>\<rparr>"

text \<open>
  The configuration the documentation gives as the default, and the example editor with
  it, both as its configuration and as its \<^verbatim>\<open>indentBlock\<close> property.
\<close>

definition documented_defaults :: indent_block_config where
  "documented_defaults =
     \<lparr>attribute = Some ''margin-left'', offset = Some 40, unit = Some ''px'', classes = None\<rparr>"

definition configured_editor :: editor where
  "configured_editor =
     example_editor\<lparr>config_indentBlock := documented_defaults, indentBlock := documented_defaults\<rparr>"

text \<open>
  Two configurations with \<^verbatim>\<open>classes\<close> defined, next to values for the offset fields: a
  list of two class names, and the empty list.
\<close>

definition classes_editor :: editor where
  "classes_editor =
     example_editor\<lparr>config_indentBlock :=
       \<lparr>attribute = Some ''margin-left'', offset = Some 40, unit = Some ''px'',
        classes = Some [''indent-a'', ''indent-b'']\<rparr>\<rparr>"

definition empty_classes_editor :: editor where
  "empty_classes_editor =
     example_editor\<lparr>config_indentBlock :=
       \<lparr>attribute = None, offset = Some 40, unit = Some ''px'', classes = Some []\<rparr>\<rparr>"

section \<open>Basic facts\<close>

lemma regexp_test_any_characters: "regexp_test any_characters s \<longleftrightarrow> s \<noteq> []"
  by (induction s) (auto simp: any_characters_def)

lemma and_then_None [simp]: "and_then (None, e) f = f e"
  by (simp add: and_then_def)

lemma and_then_Some [simp]: "and_then (Some err, e) f = (Some err, e)"
  by (simp add: and_then_def)

lemma setupConversionUsingOffset_rules:
  "conversion (setupConversionUsingOffset e) = conversion e @
     [Upcast [(marginProperty e, any_characters)] ''blockIndent'' (upcast_value (marginProperty e)),
      Downcast ''blockIndent'' (downcast_view (marginProperty e))]"
  by (simp add: setupConversionUsingOffset_def Let_def)

lemma marginProperty_example: "marginProperty example_editor = ''margin-left''"
  by (simp add: marginProperty_def example_editor_def truthy_def)

lemma conversion_example: "conversion example_editor = []"
  by (simp add: example_editor_def)

lemma setupConversionUsingOffset_example:
  "conversion (setupConversionUsingOffset example_editor) =
     conversion example_editor @
       [Upcast [(''margin-left'', any_characters)] ''blockIndent'' (upcast_value ''margin-left''),
        Downcast ''blockIndent'' (downcast_view ''margin-left'')]"
  by (simp add: setupConversionUsingOffset_rules marginProperty_example)

lemma upcast_offset_rule:
  "upcast (Upcast [(p, any_characters)] k (upcast_value p)) el =
     (case getStyle el p of
        None \<Rightarrow> None
      | Some v \<Rightarrow> if v \<noteq> [] \<and> \<not> is_element el ''li'' then Some (k, v) else None)"
  by (simp add: matches_styles_def upcast_value_def regexp_test_any_characters
           split: option.splits)

lemma marginProperty_configured: "marginProperty configured_editor = ''text-indent''"
  by (simp add: marginProperty_def configured_editor_def documented_defaults_def truthy_def)

lemma marginProperty_styleProcessorRules [simp]:
  "marginProperty (e\<lparr>styleProcessorRules := rs\<rparr>) = marginProperty e"
  by (simp add: marginProperty_def)

lemma marginProperty_config_indentBlock [simp]:
  "marginProperty (e\<lparr>config_indentBlock := c\<rparr>) = marginProperty e"
  by (simp add: marginProperty_def)

lemma commands_add_unfold:
  "commands_add n c e =
     (if commands e n = None then (None, e\<lparr>commands := (commands e)(n \<mapsto> c)\<rparr>)
      else (Some (DuplicateCommand n), e))"
  by (simp add: commands_add_def split: option.splits)

lemma init_using_offset_conversion:
  "conversion (snd (init_using_offset c e)) = conversion e @
     [Upcast [(marginProperty e, any_characters)] ''blockIndent'' (upcast_value (marginProperty e)),
      Downcast ''blockIndent'' (downcast_view (marginProperty e))]"
  by (simp add: init_using_offset_def commands_add_unfold setupConversionUsingOffset_def Let_def)

lemma init_using_offset_styleProcessorRules:
  "styleProcessorRules (snd (init_using_offset c e)) = styleProcessorRules e @ [AddMarginRules]"
  by (simp add: init_using_offset_def commands_add_unfold setupConversionUsingOffset_def Let_def)

lemma init_using_offset_fresh:
  assumes "commands e ''indentBlock'' = None" and "commands e ''outdentBlock'' = None"
  shows "init_using_offset c e =
    (None, e\<lparr>styleProcessorRules := styleProcessorRules e @ [AddMarginRules],
             conversion := conversion e @
               [Upcast [(marginProperty e, any_characters)] ''blockIndent''
                  (upcast_value (marginProperty e)),
                Downcast ''blockIndent'' (downcast_view (marginProperty e))],
             commands := (commands e)
               (''indentBlock'' \<mapsto>
                  IndentBlockCommand (IndentUsingOffset Forward (attribute c) (offset c) (unit c)),
                ''outdentBlock'' \<mapsto>
                  IndentBlockCommand (IndentUsingOffset Backward (attribute c) (offset c) (unit c)))\<rparr>)"
  using assms
  by (simp add: init_using_offset_def commands_add_unfold setupConversionUsingOffset_def Let_def)

lemma init_using_classes_conversion:
  "conversion (snd (init_using_classes cs e)) = conversion e @
     [TwoWay (for_className cs
        \<lparr>model_key = ''blockIndent'', model_values = [], view_of = Map.empty\<rparr>)]"
  by (simp add: init_using_classes_def commands_add_unfold setupConversionUsingClasses_def Let_def)

lemma init_using_classes_styleProcessorRules:
  "styleProcessorRules (snd (init_using_classes cs e)) = styleProcessorRules e"
  by (simp add: init_using_classes_def commands_add_unfold setupConversionUsingClasses_def Let_def)

lemma init_using_classes_fresh:
  assumes "commands e ''indentBlock'' = None" and "commands e ''outdentBlock'' = None"
  shows "init_using_classes cs e =
    (None, e\<lparr>conversion := conversion e @
               [TwoWay (for_className cs
                  \<lparr>model_key = ''blockIndent'', model_values = [], view_of = Map.empty\<rparr>)],
             commands := (commands e)
               (''indentBlock'' \<mapsto> IndentBlockCommand (IndentUsingClasses Forward cs),
                ''outdentBlock'' \<mapsto> IndentBlockCommand (IndentUsingClasses Backward cs))\<rparr>)"
  using assms
  by (simp add: init_using_classes_def commands_add_unfold setupConversionUsingClasses_def Let_def)

lemma init_using_classes_commands:
  "commands (snd (init_using_classes cs e)) n = commands e n \<or>
   (\<exists>d. commands (snd (init_using_classes cs e)) n = Some (IndentBlockCommand (IndentUsingClasses d cs)))"
  by (simp add: init_using_classes_def commands_add_unfold setupConversionUsingClasses_def Let_def)

lemma init_using_classes_config:
  "init_using_classes cs (e\<lparr>config_indentBlock := c\<rparr>) =
     (fst (init_using_classes cs e), (snd (init_using_classes cs e))\<lparr>config_indentBlock := c\<rparr>)"
  by (simp add: init_using_classes_def commands_add_unfold setupConversionUsingClasses_def Let_def)

lemma init_classes:
  "classes (config_indentBlock e) = Some cs \<Longrightarrow> cs \<noteq> [] \<Longrightarrow> init e = init_using_classes cs e"
  by (simp add: init_def Let_def)

lemma init_offset:
  "classes (config_indentBlock e) = None \<or> classes (config_indentBlock e) = Some [] \<Longrightarrow>
     init e = init_using_offset (config_indentBlock e) e"
  by (auto simp: init_def Let_def)

lemma for_className_values:
  "model_values (for_className cs d) = model_values d @ cs"
  by (induction cs arbitrary: d) simp_all

lemma for_className_key:
  "model_key (for_className cs d) = model_key d"
  by (induction cs arbitrary: d) simp_all

lemma for_className_view:
  "view_of (for_className cs d) c =
     (if c \<in> set cs then Some (''class'', Classes [c]) else view_of d c)"
  by (induction cs arbitrary: d) auto

lemma commands_example:
  "commands example_editor ''indentBlock'' = None"
  "commands example_editor ''outdentBlock'' = None"
  "commands example_editor ''indent'' = Some (MultiCommand [])"
  "commands example_editor ''outdent'' = Some (MultiCommand [])"
  by (simp_all add: example_editor_def)

lemma classes_editor_fields:
  "classes (config_indentBlock classes_editor) = Some [''indent-a'', ''indent-b'']"
  "commands classes_editor = commands example_editor"
  "conversion classes_editor = []"
  "styleProcessorRules classes_editor = []"
  by (simp_all add: classes_editor_def example_editor_def)

lemma empty_classes_editor_fields:
  "config_indentBlock empty_classes_editor =
     \<lparr>attribute = None, offset = Some 40, unit = Some ''px'', classes = Some []\<rparr>"
  "commands empty_classes_editor = commands example_editor"
  "conversion empty_classes_editor = []"
  "styleProcessorRules empty_classes_editor = []"
  "marginProperty empty_classes_editor = ''margin-left''"
  by (simp_all add: empty_classes_editor_def example_editor_def marginProperty_def truthy_def)

lemma configured_editor_fields:
  "config_indentBlock configured_editor = documented_defaults"
  "indentBlock configured_editor = documented_defaults"
  "commands configured_editor = commands example_editor"
  "conversion configured_editor = []"
  "styleProcessorRules configured_editor = []"
  by (simp_all add: configured_editor_def example_editor_def)

lemma extend_registered:
  "isRegistered s n \<Longrightarrow>
     extend n a s = Inr (s\<lparr>allowed := (allowed s)(n \<mapsto> insert a (the (allowed s n)))\<rparr>)"
  by (auto simp: isRegistered_def extend_def)

lemma forEach_elementName_result:
  "forEach_elementName ns e =
     (None, e\<lparr>schema := (schema e)\<lparr>allowed := (\<lambda>n.
        if n \<in> set ns then map_option (insert ''blockIndent'') (allowed (schema e) n)
        else allowed (schema e) n)\<rparr>\<rparr>)"
proof (induction ns arbitrary: e)
  case Nil
  show ?case by simp
next
  case (Cons n ns)
  show ?case
  proof (cases "isRegistered (schema e) n")
    case True
    then obtain attrs where attrs: "allowed (schema e) n = Some attrs"
      by (auto simp: isRegistered_def)
    have "(\<lambda>m. if m \<in> set ns
                then map_option (insert ''blockIndent'')
                       (((allowed (schema e))(n \<mapsto> insert ''blockIndent'' attrs)) m)
                else ((allowed (schema e))(n \<mapsto> insert ''blockIndent'' attrs)) m) =
          (\<lambda>m. if m \<in> set (n # ns)
                then map_option (insert ''blockIndent'') (allowed (schema e) m)
                else allowed (schema e) m)"
      using attrs by (auto simp: fun_eq_iff)
    then show ?thesis
      using True attrs by (simp add: Cons.IH extend_def cong: if_cong)
  next
    case False
    then have none: "allowed (schema e) n = None"
      by (simp add: isRegistered_def)
    have "(\<lambda>m. if m \<in> set ns
                then map_option (insert ''blockIndent'') (allowed (schema e) m)
                else allowed (schema e) m) =
          (\<lambda>m. if m \<in> set (n # ns)
                then map_option (insert ''blockIndent'') (allowed (schema e) m)
                else allowed (schema e) m)"
      using none by (auto simp: fun_eq_iff)
    then show ?thesis
      using False by (simp add: Cons.IH cong: if_cong)
  qed
qed

lemma registerChildCommand_fields:
  "schema (snd (registerChildCommand p c e)) = schema e"
  "fst (registerChildCommand p c e) = None \<or> fst (registerChildCommand p c e) = Some TypeError"
  by (simp_all add: registerChildCommand_def split: option.splits command.splits)

lemma knownElements_schema [simp]: "knownElements (e\<lparr>schema := s\<rparr>) = knownElements e"
  by (simp add: knownElements_def)

lemma afterInit_schema:
  "schema (snd (afterInit e)) =
     setAttributeProperties ''blockIndent'' [''isFormatting'' \<mapsto> True]
       ((schema e)\<lparr>allowed := (\<lambda>n.
          if n \<in> set (knownElements e) then map_option (insert ''blockIndent'') (allowed (schema e) n)
          else allowed (schema e) n)\<rparr>)"
proof -
  let ?e2 = "e\<lparr>schema := setAttributeProperties ''blockIndent'' [''isFormatting'' \<mapsto> True]
       ((schema e)\<lparr>allowed := (\<lambda>n.
          if n \<in> set (knownElements e) then map_option (insert ''blockIndent'') (allowed (schema e) n)
          else allowed (schema e) n)\<rparr>)\<rparr>"
  have a: "afterInit e =
      and_then (registerChildCommand ''indent'' (commands ?e2 ''indentBlock'') ?e2) (\<lambda>e3.
        registerChildCommand ''outdent'' (commands e3 ''outdentBlock'') e3)"
    by (simp add: afterInit_def forEach_elementName_result)
  obtain err e3 where r: "registerChildCommand ''indent'' (commands ?e2 ''indentBlock'') ?e2 = (err, e3)"
    by (cases "registerChildCommand ''indent'' (commands ?e2 ''indentBlock'') ?e2") blast
  have s3: "schema e3 = schema ?e2"
    using registerChildCommand_fields(1) [of "''indent''" "commands ?e2 ''indentBlock''" ?e2]
    unfolding r by simp
  have s2: "schema ?e2 = setAttributeProperties ''blockIndent'' [''isFormatting'' \<mapsto> True]
       ((schema e)\<lparr>allowed := (\<lambda>n.
          if n \<in> set (knownElements e) then map_option (insert ''blockIndent'') (allowed (schema e) n)
          else allowed (schema e) n)\<rparr>)"
    by simp
  have "schema (snd (afterInit e)) = schema e3"
    unfolding a r by (cases err) (simp_all add: registerChildCommand_fields(1))
  then show ?thesis
    unfolding s3 s2 .
qed

lemma afterInit_error:
  "fst (afterInit e) = None \<or> fst (afterInit e) = Some TypeError"
proof -
  let ?e2 = "e\<lparr>schema := setAttributeProperties ''blockIndent'' [''isFormatting'' \<mapsto> True]
       ((schema e)\<lparr>allowed := (\<lambda>n.
          if n \<in> set (knownElements e) then map_option (insert ''blockIndent'') (allowed (schema e) n)
          else allowed (schema e) n)\<rparr>)\<rparr>"
  have a: "afterInit e =
      and_then (registerChildCommand ''indent'' (commands ?e2 ''indentBlock'') ?e2) (\<lambda>e3.
        registerChildCommand ''outdent'' (commands e3 ''outdentBlock'') e3)"
    by (simp add: afterInit_def forEach_elementName_result)
  obtain err e3 where r: "registerChildCommand ''indent'' (commands ?e2 ''indentBlock'') ?e2 = (err, e3)"
    by (cases "registerChildCommand ''indent'' (commands ?e2 ''indentBlock'') ?e2") blast
  have e: "err = None \<or> err = Some TypeError"
    using registerChildCommand_fields(2) [of "''indent''" "commands ?e2 ''indentBlock''" ?e2]
    unfolding r by simp
  show ?thesis
    unfolding a r using e registerChildCommand_fields(2) by (cases err) auto
qed

lemma allowed_setAttributeProperties [simp]:
  "allowed (setAttributeProperties a props s) = allowed s"
  by (simp add: setAttributeProperties_def)

lemma isFormatting_setAttributeProperties:
  "\<exists>bag. attributeProperties (setAttributeProperties a [''isFormatting'' \<mapsto> True] s) a = Some bag \<and>
         bag ''isFormatting'' = Some True"
  by (simp add: setAttributeProperties_def split: option.splits)

lemma afterInit_links:
  assumes "commands e ''indent'' = Some (MultiCommand cs)"
      and "commands e ''outdent'' = Some (MultiCommand ds)"
      and "commands e ''indentBlock'' = Some ib"
      and "commands e ''outdentBlock'' = Some ob"
  shows "fst (afterInit e) = None"
    and "commands (snd (afterInit e)) =
           (commands e)(''indent'' \<mapsto> MultiCommand (cs @ [ib]),
                        ''outdent'' \<mapsto> MultiCommand (ds @ [ob]))"
  using assms
  by (simp_all add: afterInit_def forEach_elementName_result registerChildCommand_def)

lemma init_fresh_commands:
  assumes "commands e ''indentBlock'' = None" and "commands e ''outdentBlock'' = None"
  shows "fst (init e) = None \<and>
         (\<exists>ib ob. commands (snd (init e)) =
                    (commands e)(''indentBlock'' \<mapsto> ib, ''outdentBlock'' \<mapsto> ob))"
proof (cases "\<exists>cs. classes (config_indentBlock e) = Some cs \<and> cs \<noteq> []")
  case True
  then obtain cs where "classes (config_indentBlock e) = Some cs" and "cs \<noteq> []"
    by blast
  then show ?thesis
    using assms by (simp add: init_classes init_using_classes_fresh) blast
next
  case False
  then have "classes (config_indentBlock e) = None \<or> classes (config_indentBlock e) = Some []"
    by (cases "classes (config_indentBlock e)") auto
  then show ?thesis
    using assms by (simp add: init_offset init_using_offset_fresh) blast
qed

lemma object_literal_with_colons:
  "\<exists>obj. object_literal
            [(''attribute'', 0x3A, StringLiteral ''margin-left''),
             (''offset'', 0x3A, NumericLiteral 40),
             (''unit'', 0x3A, StringLiteral ''px'')] = Inr obj \<and>
         config_define obj \<lparr>attribute = None, offset = None, unit = None, classes = None\<rparr> =
           documented_defaults"
  by (simp add: config_define_def documented_defaults_def)

lemma constructor_fails: "constructor e = (Some SyntaxError, e)"
  by (simp add: constructor_def indentBlock_defaults_def)

lemma schema_example:
  "allowed (schema example_editor) ''heading2'' = None"
  "allowed (schema example_editor) ''paragraph'' = Some {}"
  "knownElements example_editor = DEFAULT_ELEMENTS"
  by (simp_all add: example_editor_def knownElements_def)

lemma init_example:
  "commands (snd (init example_editor)) ''indentBlock'' =
     Some (IndentBlockCommand (IndentUsingOffset Forward None None None))"
  "commands (snd (init example_editor)) ''outdentBlock'' =
     Some (IndentBlockCommand (IndentUsingOffset Backward None None None))"
proof -
  have c: "config_indentBlock example_editor =
      \<lparr>attribute = None, offset = None, unit = None, classes = None\<rparr>"
    by (simp add: example_editor_def)
  have i: "init example_editor = init_using_offset (config_indentBlock example_editor) example_editor"
    by (simp add: init_offset c)
  show "commands (snd (init example_editor)) ''indentBlock'' =
     Some (IndentBlockCommand (IndentUsingOffset Forward None None None))"
    "commands (snd (init example_editor)) ''outdentBlock'' =
     Some (IndentBlockCommand (IndentUsingOffset Backward None None None))"
    unfolding i init_using_offset_fresh [OF commands_example(1,2)]
    by (simp_all add: c)
qed

section \<open>The offset conversion rules\<close>

text \<open>
  C4. The value callback of the offset upcast rule returns undefined for a view
  element named \<^verbatim>\<open>li\<close>, whatever its styles, so the rule yields no model attribute; for
  any other element that the style pattern matches, the callback returns the raw value
  of the style property and the rule yields \<^verbatim>\<open>blockIndent\<close> with it. In the example,
  \<^verbatim>\<open>margin-left: 40px\<close> gives nothing on \<^verbatim>\<open>li\<close> and \<^verbatim>\<open>40px\<close> on \<^verbatim>\<open>p\<close>.
\<close>

theorem upcast_value_list_item_exemption:
  assumes "conversion (setupConversionUsingOffset e) =
             conversion e @ [Upcast patterns k value_of, down]"
  shows "(is_element el ''li'' \<longrightarrow>
            value_of el = None \<and> upcast (Upcast patterns k value_of) el = None) \<and>
         (\<not> is_element el ''li'' \<longrightarrow> matches_styles patterns el \<longrightarrow>
            (\<exists>v. getStyle el (marginProperty e) = Some v \<and>
                 value_of el = Some v \<and>
                 upcast (Upcast patterns k value_of) el = Some (''blockIndent'', v)))"
proof -
  from assms have up: "patterns = [(marginProperty e, any_characters)]" "k = ''blockIndent''"
      "value_of = upcast_value (marginProperty e)"
    by (simp_all add: setupConversionUsingOffset_rules)
  show ?thesis
    by (auto simp: up upcast_value_def matches_styles_def split: option.splits)
qed

theorem upcast_value_list_item_exemption_witness:
  "upcast_value ''margin-left'' \<lparr>name = ''li'', styles = [''margin-left'' \<mapsto> ''40px'']\<rparr> = None \<and>
   upcast (hd (conversion (setupConversionUsingOffset example_editor)))
     \<lparr>name = ''li'', styles = [''margin-left'' \<mapsto> ''40px'']\<rparr> = None \<and>
   upcast_value ''margin-left'' \<lparr>name = ''p'', styles = [''margin-left'' \<mapsto> ''40px'']\<rparr> =
     Some ''40px'' \<and>
   upcast (hd (conversion (setupConversionUsingOffset example_editor)))
     \<lparr>name = ''p'', styles = [''margin-left'' \<mapsto> ''40px'']\<rparr> = Some (''blockIndent'', ''40px'')"
proof -
  note reg = setupConversionUsingOffset_example
  have hd: "hd (conversion (setupConversionUsingOffset example_editor)) =
      Upcast [(''margin-left'', any_characters)] ''blockIndent'' (upcast_value ''margin-left'')"
    by (simp add: reg conversion_example)
  have m: "matches_styles [(''margin-left'', any_characters)]
             \<lparr>name = ''p'', styles = [''margin-left'' \<mapsto> ''40px'']\<rparr>"
    by (simp add: matches_styles_def getStyle_def regexp_test_any_characters)
  from upcast_value_list_item_exemption [OF reg,
      of "\<lparr>name = ''li'', styles = [''margin-left'' \<mapsto> ''40px'']\<rparr>"]
  have a: "upcast_value ''margin-left''
             \<lparr>name = ''li'', styles = [''margin-left'' \<mapsto> ''40px'']\<rparr> = None \<and>
           upcast (Upcast [(''margin-left'', any_characters)] ''blockIndent''
                     (upcast_value ''margin-left''))
             \<lparr>name = ''li'', styles = [''margin-left'' \<mapsto> ''40px'']\<rparr> = None"
    by (simp add: is_element_def del: upcast.simps)
  from upcast_value_list_item_exemption [OF reg,
      of "\<lparr>name = ''p'', styles = [''margin-left'' \<mapsto> ''40px'']\<rparr>"] m
  have b: "upcast_value ''margin-left''
             \<lparr>name = ''p'', styles = [''margin-left'' \<mapsto> ''40px'']\<rparr> = Some ''40px'' \<and>
           upcast (Upcast [(''margin-left'', any_characters)] ''blockIndent''
                     (upcast_value ''margin-left''))
             \<lparr>name = ''p'', styles = [''margin-left'' \<mapsto> ''40px'']\<rparr> =
           Some (''blockIndent'', ''40px'')"
    by (simp add: is_element_def marginProperty_example getStyle_def del: upcast.simps)
  show ?thesis using a b by (simp only: hd simp_thms)
qed

text \<open>
  C7, as the code has it. The upcast rule of the offset strategy matches a view element
  if and only if the selected style property is present with a value of at least one
  character, white space included: the pattern \<^verbatim>\<open>/[\s\S]+/\<close> accepts every character. An
  element on which the property is absent or empty is not matched and gets no
  \<^verbatim>\<open>blockIndent\<close>.
\<close>

theorem upcast_matches_any_nonempty_value:
  assumes "conversion (setupConversionUsingOffset e) = conversion e @ [Upcast patterns k value_of, down]"
  shows "(matches_styles patterns el \<longleftrightarrow>
            (\<exists>v. getStyle el (marginProperty e) = Some v \<and> v \<noteq> [])) \<and>
         (getStyle el (marginProperty e) = None \<or> getStyle el (marginProperty e) = Some [] \<longrightarrow>
            upcast (Upcast patterns k value_of) el = None)"
proof -
  from assms have p: "patterns = [(marginProperty e, any_characters)]"
    by (simp add: setupConversionUsingOffset_rules)
  show ?thesis
    by (auto simp: p matches_styles_def regexp_test_any_characters split: option.splits)
qed

theorem upcast_matches_any_nonempty_value_witness:
  "matches_styles [(''margin-left'', any_characters)]
      \<lparr>name = ''p'', styles = [''margin-left'' \<mapsto> ''40px'']\<rparr> \<and>
   \<not> matches_styles [(''margin-left'', any_characters)]
      \<lparr>name = ''p'', styles = [''margin-left'' \<mapsto> '''']\<rparr> \<and>
   upcast (hd (conversion (setupConversionUsingOffset example_editor)))
      \<lparr>name = ''p'', styles = [''margin-left'' \<mapsto> '''']\<rparr> = None"
proof -
  note reg = setupConversionUsingOffset_example
  have hd: "hd (conversion (setupConversionUsingOffset example_editor)) =
      Upcast [(''margin-left'', any_characters)] ''blockIndent'' (upcast_value ''margin-left'')"
    by (simp add: reg conversion_example)
  from upcast_matches_any_nonempty_value [OF reg,
      of "\<lparr>name = ''p'', styles = [''margin-left'' \<mapsto> ''40px'']\<rparr>"]
  have a: "matches_styles [(''margin-left'', any_characters)]
      \<lparr>name = ''p'', styles = [''margin-left'' \<mapsto> ''40px'']\<rparr>"
    by (simp add: marginProperty_example getStyle_def)
  from upcast_matches_any_nonempty_value [OF reg,
      of "\<lparr>name = ''p'', styles = [''margin-left'' \<mapsto> '''']\<rparr>"]
  have b: "\<not> matches_styles [(''margin-left'', any_characters)]
      \<lparr>name = ''p'', styles = [''margin-left'' \<mapsto> '''']\<rparr> \<and>
      upcast (Upcast [(''margin-left'', any_characters)] ''blockIndent'' (upcast_value ''margin-left''))
      \<lparr>name = ''p'', styles = [''margin-left'' \<mapsto> '''']\<rparr> = None"
    by (simp add: marginProperty_example getStyle_def)
  show ?thesis using a b by (simp add: hd)
qed

text \<open>
  A value that consists of one space is matched, and the space becomes the value of
  \<^verbatim>\<open>blockIndent\<close>.
\<close>

theorem upcast_matches_white_space_counterexample:
  "list_all is_white_space '' '' \<and>
   getStyle \<lparr>name = ''p'', styles = [''margin-left'' \<mapsto> '' '']\<rparr> ''margin-left'' = Some '' '' \<and>
   matches_styles [(''margin-left'', any_characters)]
      \<lparr>name = ''p'', styles = [''margin-left'' \<mapsto> '' '']\<rparr> \<and>
   upcast (hd (conversion (setupConversionUsingOffset example_editor)))
      \<lparr>name = ''p'', styles = [''margin-left'' \<mapsto> '' '']\<rparr> = Some (''blockIndent'', '' '')"
proof -
  have hd: "hd (conversion (setupConversionUsingOffset example_editor)) =
      Upcast [(''margin-left'', any_characters)] ''blockIndent'' (upcast_value ''margin-left'')"
    by (simp add: setupConversionUsingOffset_example conversion_example)
  show ?thesis
    by (simp add: hd upcast_offset_rule getStyle_def is_element_def is_white_space_def
          matches_styles_def regexp_test_any_characters del: upcast.simps)
qed

text \<open>
  C3. Round trip of the offset rules, for a value \<open>v\<close> that the pattern accepts. On an
  element that is not a list item: setting the downcast of \<open>v\<close> on the element and
  upcasting it gives \<open>v\<close> back; and when the element carries \<open>v\<close>, upcasting gives \<open>v\<close> and
  downcasting that onto the element leaves the element as it was. On a list item the
  upcast abstains.
\<close>

theorem offset_round_trip:
  assumes reg: "conversion (setupConversionUsingOffset e) = conversion e @ [up, down]"
      and valid: "regexp_test any_characters v"
  shows "(\<not> is_element el ''li'' \<longrightarrow>
            (\<exists>d. downcast down (''blockIndent'', v) = Some d \<and>
                 upcast up (set_attribute d el) = Some (''blockIndent'', v)) \<and>
            (getStyle el (marginProperty e) = Some v \<longrightarrow>
               upcast up el = Some (''blockIndent'', v) \<and>
               (\<exists>d. downcast down (''blockIndent'', v) = Some d \<and> set_attribute d el = el))) \<and>
         (is_element el ''li'' \<longrightarrow>
            (\<exists>d. downcast down (''blockIndent'', v) = Some d \<and>
                 upcast up (set_attribute d el) = None))"
proof -
  from reg have up: "up = Upcast [(marginProperty e, any_characters)] ''blockIndent''
                              (upcast_value (marginProperty e))"
    and down: "down = Downcast ''blockIndent'' (downcast_view (marginProperty e))"
    by (simp_all add: setupConversionUsingOffset_rules)
  from valid have ne: "v \<noteq> []"
    by (simp add: regexp_test_any_characters)
  have same: "getStyle el (marginProperty e) = Some v \<Longrightarrow>
      el\<lparr>styles := styles el ++ [marginProperty e \<mapsto> v]\<rparr> = el"
    by (simp add: getStyle_def fun_upd_idem)
  show ?thesis
    using ne same
    by (simp add: up down upcast_offset_rule downcast_view_def getStyle_def is_element_def
          del: upcast.simps)
qed


theorem offset_round_trip_witness:
  "regexp_test any_characters ''40px'' \<and>
   downcast (last (conversion (setupConversionUsingOffset example_editor))) (''blockIndent'', ''40px'') =
     Some (''style'', Styles [(''margin-left'', ''40px'')]) \<and>
   upcast (hd (conversion (setupConversionUsingOffset example_editor)))
     (set_attribute (''style'', Styles [(''margin-left'', ''40px'')]) \<lparr>name = ''p'', styles = Map.empty\<rparr>) =
     Some (''blockIndent'', ''40px'') \<and>
   upcast (hd (conversion (setupConversionUsingOffset example_editor)))
     \<lparr>name = ''p'', styles = [''margin-left'' \<mapsto> ''40px'']\<rparr> = Some (''blockIndent'', ''40px'') \<and>
   set_attribute (''style'', Styles [(''margin-left'', ''40px'')])
     \<lparr>name = ''p'', styles = [''margin-left'' \<mapsto> ''40px'']\<rparr> =
     \<lparr>name = ''p'', styles = [''margin-left'' \<mapsto> ''40px'']\<rparr> \<and>
   upcast (hd (conversion (setupConversionUsingOffset example_editor)))
     (set_attribute (''style'', Styles [(''margin-left'', ''40px'')]) \<lparr>name = ''li'', styles = Map.empty\<rparr>) =
     None"
proof -
  note reg = setupConversionUsingOffset_example
  have valid: "regexp_test any_characters ''40px''"
    by (simp add: regexp_test_any_characters)
  have hd: "hd (conversion (setupConversionUsingOffset example_editor)) =
      Upcast [(''margin-left'', any_characters)] ''blockIndent'' (upcast_value ''margin-left'')"
    and last: "last (conversion (setupConversionUsingOffset example_editor)) =
      Downcast ''blockIndent'' (downcast_view ''margin-left'')"
    by (simp_all add: reg conversion_example)
  have d: "downcast (Downcast ''blockIndent'' (downcast_view ''margin-left'')) (''blockIndent'', ''40px'') =
      Some (''style'', Styles [(''margin-left'', ''40px'')])"
    by (simp add: downcast_view_def)
  from offset_round_trip [OF reg valid, of "\<lparr>name = ''p'', styles = Map.empty\<rparr>"]
  have a: "upcast (Upcast [(''margin-left'', any_characters)] ''blockIndent'' (upcast_value ''margin-left''))
     (set_attribute (''style'', Styles [(''margin-left'', ''40px'')]) \<lparr>name = ''p'', styles = Map.empty\<rparr>) =
     Some (''blockIndent'', ''40px'')"
    by (simp add: is_element_def downcast_view_def del: upcast.simps set_attribute.simps)
  from offset_round_trip [OF reg valid, of "\<lparr>name = ''p'', styles = [''margin-left'' \<mapsto> ''40px'']\<rparr>"]
  have b: "upcast (Upcast [(''margin-left'', any_characters)] ''blockIndent'' (upcast_value ''margin-left''))
       \<lparr>name = ''p'', styles = [''margin-left'' \<mapsto> ''40px'']\<rparr> = Some (''blockIndent'', ''40px'') \<and>
     set_attribute (''style'', Styles [(''margin-left'', ''40px'')])
       \<lparr>name = ''p'', styles = [''margin-left'' \<mapsto> ''40px'']\<rparr> =
       \<lparr>name = ''p'', styles = [''margin-left'' \<mapsto> ''40px'']\<rparr>"
    by (simp add: is_element_def downcast_view_def marginProperty_example getStyle_def
          del: upcast.simps set_attribute.simps)
  from offset_round_trip [OF reg valid, of "\<lparr>name = ''li'', styles = Map.empty\<rparr>"]
  have c: "upcast (Upcast [(''margin-left'', any_characters)] ''blockIndent'' (upcast_value ''margin-left''))
     (set_attribute (''style'', Styles [(''margin-left'', ''40px'')]) \<lparr>name = ''li'', styles = Map.empty\<rparr>) =
     None"
    by (simp add: is_element_def downcast_view_def del: upcast.simps set_attribute.simps)
  show ?thesis
    using valid a b c d by (simp only: hd last simp_thms)
qed

text \<open>
  C1, as the code has it. The upcast rule and the downcast rule of the offset strategy
  use one and the same style property, chosen at set-up: \<^verbatim>\<open>text-indent\<close> when
  \<^verbatim>\<open>editor.indentBlock.attribute\<close> is truthy, otherwise \<^verbatim>\<open>margin-right\<close> for right-to-left
  content and \<^verbatim>\<open>margin-left\<close> otherwise. The upcast pattern and value callback read that
  property, and for every model attribute value \<open>v\<close> the downcast emits a \<^verbatim>\<open>style\<close>
  attribute with that property set to \<open>v\<close>.
\<close>

theorem offset_rules_use_selected_property:
  "let property =
         (if truthy (attribute (indentBlock e)) then ''text-indent''
          else if contentLanguageDirection e = Rtl then ''margin-right''
          else ''margin-left'')
   in \<exists>value_of view_fn.
        conversion (setupConversionUsingOffset e) = conversion e @
          [Upcast [(property, any_characters)] ''blockIndent'' value_of,
           Downcast ''blockIndent'' view_fn] \<and>
        (\<forall>el. \<not> is_element el ''li'' \<longrightarrow> value_of el = getStyle el property) \<and>
        (\<forall>v. downcast (Downcast ''blockIndent'' view_fn) (''blockIndent'', v) =
               Some (''style'', Styles [(property, v)]))"
  by (simp add: setupConversionUsingOffset_rules marginProperty_def upcast_value_def
        downcast_view_def Let_def)

theorem offset_rules_use_selected_property_witness:
  "conversion (setupConversionUsingOffset configured_editor) =
     [Upcast [(''text-indent'', any_characters)] ''blockIndent'' (upcast_value ''text-indent''),
      Downcast ''blockIndent'' (downcast_view ''text-indent'')] \<and>
   downcast (Downcast ''blockIndent'' (downcast_view ''text-indent'')) (''blockIndent'', ''2em'') =
     Some (''style'', Styles [(''text-indent'', ''2em'')])"
proof -
  have c: "conversion configured_editor = []"
    by (simp add: configured_editor_def example_editor_def)
  have t: "truthy (attribute (indentBlock configured_editor))"
    by (simp add: configured_editor_def documented_defaults_def truthy_def)
  have reg: "conversion (setupConversionUsingOffset configured_editor) =
     [Upcast [(''text-indent'', any_characters)] ''blockIndent'' (upcast_value ''text-indent''),
      Downcast ''blockIndent'' (downcast_view ''text-indent'')]"
    by (simp add: setupConversionUsingOffset_rules marginProperty_configured c)
  from offset_rules_use_selected_property [of configured_editor]
  have "downcast (Downcast ''blockIndent'' (downcast_view ''text-indent'')) (''blockIndent'', ''2em'') =
     Some (''style'', Styles [(''text-indent'', ''2em'')])"
    by (simp add: t reg c Let_def del: downcast.simps)
  with reg show ?thesis by simp
qed

text \<open>
  With \<^verbatim>\<open>attribute\<close> set to \<^verbatim>\<open>margin-left\<close>, in the configuration and on the editor, the
  downcast rule that \<^verbatim>\<open>init\<close> registers emits \<^verbatim>\<open>text-indent\<close>, not \<^verbatim>\<open>margin-left\<close>.
\<close>

theorem downcast_property_counterexample:
  "attribute (config_indentBlock configured_editor) = Some ''margin-left'' \<and>
   attribute (indentBlock configured_editor) = Some ''margin-left'' \<and>
   downcast (last (conversion (snd (init configured_editor)))) (''blockIndent'', ''40px'') =
     Some (''style'', Styles [(''text-indent'', ''40px'')]) \<and>
   downcast (last (conversion (snd (init configured_editor)))) (''blockIndent'', ''40px'') \<noteq>
     Some (''style'', Styles [(''margin-left'', ''40px'')])"
proof -
  have "classes (config_indentBlock configured_editor) = None"
    by (simp add: configured_editor_fields documented_defaults_def)
  then have i: "init configured_editor = init_using_offset documented_defaults configured_editor"
    by (simp add: init_offset configured_editor_fields)
  have l: "last (conversion (snd (init configured_editor))) =
             Downcast ''blockIndent'' (downcast_view ''text-indent'')"
    by (simp add: i init_using_offset_conversion marginProperty_configured)
  show ?thesis
    by (simp add: l downcast_view_def configured_editor_fields documented_defaults_def)
qed

text \<open>
  C10. In offset mode the style property of both rules is \<^verbatim>\<open>text-indent\<close> when
  \<^verbatim>\<open>editor.indentBlock.attribute\<close> is truthy, and otherwise \<^verbatim>\<open>margin-right\<close> for right-to-left
  content and \<^verbatim>\<open>margin-left\<close> for any other; it does not depend on the \<^verbatim>\<open>indentBlock\<close>
  configuration, so not on the configured \<^verbatim>\<open>attribute\<close> name, and it is the property of
  the two rules that the offset branch of \<^verbatim>\<open>init\<close> registers.
\<close>

theorem marginProperty_selection:
  "(truthy (attribute (indentBlock e)) \<longrightarrow> marginProperty e = ''text-indent'') \<and>
   (\<not> truthy (attribute (indentBlock e)) \<and> contentLanguageDirection e = Rtl \<longrightarrow>
      marginProperty e = ''margin-right'') \<and>
   (\<not> truthy (attribute (indentBlock e)) \<and> contentLanguageDirection e \<noteq> Rtl \<longrightarrow>
      marginProperty e = ''margin-left'') \<and>
   marginProperty (e\<lparr>config_indentBlock := c\<rparr>) = marginProperty e \<and>
   conversion (snd (init_using_offset c e)) = conversion e @
     [Upcast [(marginProperty e, any_characters)] ''blockIndent'' (upcast_value (marginProperty e)),
      Downcast ''blockIndent'' (downcast_view (marginProperty e))]"
  by (simp add: init_using_offset_conversion) (simp add: marginProperty_def)

theorem marginProperty_selection_witness:
  "marginProperty configured_editor = ''text-indent'' \<and>
   marginProperty (example_editor\<lparr>contentLanguageDirection := Rtl\<rparr>) = ''margin-right'' \<and>
   marginProperty example_editor = ''margin-left'' \<and>
   marginProperty (example_editor\<lparr>config_indentBlock := documented_defaults\<rparr>) = ''margin-left''"
proof -
  have t: "truthy (attribute (indentBlock configured_editor))"
    by (simp add: configured_editor_def documented_defaults_def truthy_def)
  have f: "\<not> truthy (attribute (indentBlock example_editor))"
    by (simp add: example_editor_def truthy_def)
  have f': "\<not> truthy (attribute (indentBlock (example_editor\<lparr>contentLanguageDirection := Rtl\<rparr>)))"
    by (simp add: example_editor_def truthy_def)
  have ltr: "contentLanguageDirection example_editor \<noteq> Rtl"
    by (simp add: example_editor_def)
  from marginProperty_selection [of configured_editor] t
  have a: "marginProperty configured_editor = ''text-indent''"
    by blast
  from marginProperty_selection [of "example_editor\<lparr>contentLanguageDirection := Rtl\<rparr>"] f'
  have b: "marginProperty (example_editor\<lparr>contentLanguageDirection := Rtl\<rparr>) = ''margin-right''"
    by simp
  from marginProperty_selection [of example_editor documented_defaults] f ltr
  have c: "marginProperty example_editor = ''margin-left'' \<and>
     marginProperty (example_editor\<lparr>config_indentBlock := documented_defaults\<rparr>) = ''margin-left''"
    by simp
  from a b c show ?thesis by simp
qed

section \<open>The strategy chosen by init\<close>

text \<open>
  C2. When \<^verbatim>\<open>classes\<close> is a non-empty list, \<^verbatim>\<open>init\<close> registers the class-based two-way
  conversion and nothing else in the conversion registry, adds no style processor rules,
  and registers no command other than class-based ones: on an editor without
  \<^verbatim>\<open>indentBlock\<close> and \<^verbatim>\<open>outdentBlock\<close> commands it succeeds and registers exactly these two,
  with the class list. The values of \<^verbatim>\<open>attribute\<close>, \<^verbatim>\<open>offset\<close> and \<^verbatim>\<open>unit\<close> have no effect
  on the outcome.
\<close>

theorem init_classes_only:
  assumes "classes (config_indentBlock e) = Some cs" and "cs \<noteq> []"
  shows "conversion (snd (init e)) = conversion e @
           [TwoWay (for_className cs
              \<lparr>model_key = ''blockIndent'', model_values = [], view_of = Map.empty\<rparr>)] \<and>
         styleProcessorRules (snd (init e)) = styleProcessorRules e \<and>
         (commands e ''indentBlock'' = None \<and> commands e ''outdentBlock'' = None \<longrightarrow>
            fst (init e) = None \<and>
            commands (snd (init e)) = (commands e)
              (''indentBlock'' \<mapsto> IndentBlockCommand (IndentUsingClasses Forward cs),
               ''outdentBlock'' \<mapsto> IndentBlockCommand (IndentUsingClasses Backward cs))) \<and>
         (\<forall>n. commands (snd (init e)) n = commands e n \<or>
              (\<exists>d. commands (snd (init e)) n = Some (IndentBlockCommand (IndentUsingClasses d cs)))) \<and>
         init (e\<lparr>config_indentBlock := (config_indentBlock e)\<lparr>attribute := a, offset := off, unit := u\<rparr>\<rparr>) =
           (fst (init e),
            (snd (init e))\<lparr>config_indentBlock :=
               (config_indentBlock e)\<lparr>attribute := a, offset := off, unit := u\<rparr>\<rparr>)"
proof -
  let ?c = "(config_indentBlock e)\<lparr>attribute := a, offset := off, unit := u\<rparr>"
  have i: "init e = init_using_classes cs e"
    using assms by (rule init_classes)
  have "classes (config_indentBlock (e\<lparr>config_indentBlock := ?c\<rparr>)) = Some cs"
    using assms by simp
  then have i': "init (e\<lparr>config_indentBlock := ?c\<rparr>) =
      init_using_classes cs (e\<lparr>config_indentBlock := ?c\<rparr>)"
    using assms(2) by (rule init_classes)
  show ?thesis
    unfolding i i'
    by (simp add: init_using_classes_conversion init_using_classes_styleProcessorRules
          init_using_classes_fresh init_using_classes_config init_using_classes_commands)
qed


theorem init_classes_only_witness:
  "classes (config_indentBlock classes_editor) = Some [''indent-a'', ''indent-b''] \<and>
   fst (init classes_editor) = None \<and>
   styleProcessorRules (snd (init classes_editor)) = [] \<and>
   (\<exists>d. conversion (snd (init classes_editor)) = [TwoWay d] \<and>
        model_values d = [''indent-a'', ''indent-b''] \<and>
        view_of d ''indent-b'' = Some (''class'', Classes [''indent-b''])) \<and>
   commands (snd (init classes_editor)) ''indentBlock'' =
     Some (IndentBlockCommand (IndentUsingClasses Forward [''indent-a'', ''indent-b''])) \<and>
   commands (snd (init classes_editor)) ''outdentBlock'' =
     Some (IndentBlockCommand (IndentUsingClasses Backward [''indent-a'', ''indent-b'']))"
proof -
  have ne: "[''indent-a'', ''indent-b''] \<noteq> ([] :: string list)"
    by simp
  from init_classes_only [OF classes_editor_fields(1) ne]
  show ?thesis
    by (simp add: classes_editor_fields commands_example for_className_values for_className_view
          del: for_className.simps)
qed

text \<open>
  C8, as the code has it. On an editor without \<^verbatim>\<open>indentBlock\<close> and \<^verbatim>\<open>outdentBlock\<close>
  commands, \<^verbatim>\<open>init\<close> sets up the class-based conversion and commands when \<^verbatim>\<open>classes\<close> is
  defined and not empty; when \<^verbatim>\<open>classes\<close> is undefined or the empty list it sets up the
  offset strategy: the margin rules of the style processor, the two style rules and the
  offset commands.
\<close>

theorem init_strategy_selection:
  assumes "commands e ''indentBlock'' = None" and "commands e ''outdentBlock'' = None"
  shows "(\<forall>cs. classes (config_indentBlock e) = Some cs \<and> cs \<noteq> [] \<longrightarrow>
            fst (init e) = None \<and>
            commands (snd (init e)) ''indentBlock'' =
              Some (IndentBlockCommand (IndentUsingClasses Forward cs)) \<and>
            commands (snd (init e)) ''outdentBlock'' =
              Some (IndentBlockCommand (IndentUsingClasses Backward cs)) \<and>
            (\<exists>d. conversion (snd (init e)) = conversion e @ [TwoWay d] \<and> model_values d = cs) \<and>
            styleProcessorRules (snd (init e)) = styleProcessorRules e) \<and>
         (classes (config_indentBlock e) = None \<or> classes (config_indentBlock e) = Some [] \<longrightarrow>
            fst (init e) = None \<and>
            (\<exists>a off u.
               commands (snd (init e)) ''indentBlock'' =
                 Some (IndentBlockCommand (IndentUsingOffset Forward a off u)) \<and>
               commands (snd (init e)) ''outdentBlock'' =
                 Some (IndentBlockCommand (IndentUsingOffset Backward a off u))) \<and>
            (\<exists>p value_of view_fn. conversion (snd (init e)) = conversion e @
               [Upcast [(p, any_characters)] ''blockIndent'' value_of,
                Downcast ''blockIndent'' view_fn]) \<and>
            styleProcessorRules (snd (init e)) = styleProcessorRules e @ [AddMarginRules])"
proof -
  have a: "fst (init e) = None \<and>
            commands (snd (init e)) ''indentBlock'' =
              Some (IndentBlockCommand (IndentUsingClasses Forward cs)) \<and>
            commands (snd (init e)) ''outdentBlock'' =
              Some (IndentBlockCommand (IndentUsingClasses Backward cs)) \<and>
            (\<exists>d. conversion (snd (init e)) = conversion e @ [TwoWay d] \<and> model_values d = cs) \<and>
            styleProcessorRules (snd (init e)) = styleProcessorRules e"
    if "classes (config_indentBlock e) = Some cs" and "cs \<noteq> []" for cs
    using that assms
    by (simp add: init_classes init_using_classes_fresh for_className_values)
  have b: "fst (init e) = None \<and>
            (\<exists>a off u.
               commands (snd (init e)) ''indentBlock'' =
                 Some (IndentBlockCommand (IndentUsingOffset Forward a off u)) \<and>
               commands (snd (init e)) ''outdentBlock'' =
                 Some (IndentBlockCommand (IndentUsingOffset Backward a off u))) \<and>
            (\<exists>p value_of view_fn. conversion (snd (init e)) = conversion e @
               [Upcast [(p, any_characters)] ''blockIndent'' value_of,
                Downcast ''blockIndent'' view_fn]) \<and>
            styleProcessorRules (snd (init e)) = styleProcessorRules e @ [AddMarginRules]"
    if "classes (config_indentBlock e) = None \<or> classes (config_indentBlock e) = Some []"
    using that assms
    by (simp add: init_offset init_using_offset_fresh)
  from a b show ?thesis by blast
qed

theorem init_strategy_selection_witness:
  "commands classes_editor ''indentBlock'' = None \<and>
   commands classes_editor ''outdentBlock'' = None \<and>
   commands (snd (init classes_editor)) ''indentBlock'' =
     Some (IndentBlockCommand (IndentUsingClasses Forward [''indent-a'', ''indent-b''])) \<and>
   commands empty_classes_editor ''indentBlock'' = None \<and>
   commands empty_classes_editor ''outdentBlock'' = None \<and>
   styleProcessorRules (snd (init empty_classes_editor)) = [AddMarginRules]"
proof -
  have f1: "commands classes_editor ''indentBlock'' = None"
           "commands classes_editor ''outdentBlock'' = None"
    by (simp_all add: classes_editor_fields commands_example)
  have f2: "commands empty_classes_editor ''indentBlock'' = None"
           "commands empty_classes_editor ''outdentBlock'' = None"
    by (simp_all add: empty_classes_editor_fields commands_example)
  from init_strategy_selection [OF f1]
  have a: "commands (snd (init classes_editor)) ''indentBlock'' =
     Some (IndentBlockCommand (IndentUsingClasses Forward [''indent-a'', ''indent-b'']))"
    by (simp add: classes_editor_fields)
  from init_strategy_selection [OF f2]
  have b: "styleProcessorRules (snd (init empty_classes_editor)) = [AddMarginRules]"
    by (simp add: empty_classes_editor_fields)
  from f1 f2 a b show ?thesis by simp
qed


text \<open>
  With \<^verbatim>\<open>classes\<close> defined as the empty list, \<^verbatim>\<open>init\<close> registers the offset commands, the
  style conversion rules and the margin rules.
\<close>

theorem init_empty_classes_counterexample:
  "classes (config_indentBlock empty_classes_editor) = Some [] \<and>
   fst (init empty_classes_editor) = None \<and>
   commands (snd (init empty_classes_editor)) ''indentBlock'' =
     Some (IndentBlockCommand (IndentUsingOffset Forward None (Some 40) (Some ''px''))) \<and>
   commands (snd (init empty_classes_editor)) ''outdentBlock'' =
     Some (IndentBlockCommand (IndentUsingOffset Backward None (Some 40) (Some ''px''))) \<and>
   conversion (snd (init empty_classes_editor)) =
     [Upcast [(''margin-left'', any_characters)] ''blockIndent'' (upcast_value ''margin-left''),
      Downcast ''blockIndent'' (downcast_view ''margin-left'')] \<and>
   styleProcessorRules (snd (init empty_classes_editor)) = [AddMarginRules]"
proof -
  have i: "init empty_classes_editor =
      init_using_offset (config_indentBlock empty_classes_editor) empty_classes_editor"
    by (simp add: init_offset empty_classes_editor_fields)
  have fresh: "commands empty_classes_editor ''indentBlock'' = None"
     "commands empty_classes_editor ''outdentBlock'' = None"
    by (simp_all add: empty_classes_editor_fields commands_example)
  show ?thesis
    unfolding i init_using_offset_fresh [OF fresh]
    by (simp add: empty_classes_editor_fields)
qed

section \<open>afterInit: schema and multi-commands\<close>

text \<open>
  C6. \<^verbatim>\<open>afterInit\<close> leaves the schema unchanged for every element name that is not
  registered, known or not: the name has no entry afterwards either, so \<^verbatim>\<open>blockIndent\<close>
  is not allowed on it and it is still not registered; \<^verbatim>\<open>extend\<close> is never called on a
  missing item. A registered name gets \<^verbatim>\<open>blockIndent\<close> added when it is one of the known
  elements and keeps its entry as it was otherwise.
\<close>

theorem afterInit_leaves_unregistered:
  "(\<not> isRegistered (schema e) n \<longrightarrow>
      allowed (schema (snd (afterInit e))) n = None \<and>
      \<not> isRegistered (schema (snd (afterInit e))) n) \<and>
   (\<forall>attrs. allowed (schema e) n = Some attrs \<longrightarrow>
      allowed (schema (snd (afterInit e))) n =
        Some (if n \<in> set (knownElements e) then insert ''blockIndent'' attrs else attrs)) \<and>
   (\<forall>m. fst (afterInit e) \<noteq> Some (SchemaCannotExtendMissingItem m))"
proof -
  have "fst (afterInit e) \<noteq> Some (SchemaCannotExtendMissingItem m)" for m
    using afterInit_error [of e] by auto
  then show ?thesis
    by (simp add: afterInit_schema isRegistered_def)
qed

theorem afterInit_leaves_unregistered_witness:
  "\<not> isRegistered (schema example_editor) ''heading2'' \<and>
   ''heading2'' \<in> set (knownElements example_editor) \<and>
   allowed (schema (snd (afterInit example_editor))) ''heading2'' = None \<and>
   isRegistered (schema example_editor) ''paragraph'' \<and>
   allowed (schema (snd (afterInit example_editor))) ''paragraph'' = Some {''blockIndent''}"
proof -
  have u: "\<not> isRegistered (schema example_editor) ''heading2''"
    and r: "isRegistered (schema example_editor) ''paragraph''"
    by (simp_all add: isRegistered_def schema_example)
  have k: "''heading2'' \<in> set (knownElements example_editor)"
          "''paragraph'' \<in> set (knownElements example_editor)"
    by (simp_all add: schema_example DEFAULT_ELEMENTS_def)
  from afterInit_leaves_unregistered [of example_editor "''heading2''"] u
  have a: "allowed (schema (snd (afterInit example_editor))) ''heading2'' = None"
    by blast
  from afterInit_leaves_unregistered [of example_editor "''paragraph''"] k(2)
  have b: "allowed (schema (snd (afterInit example_editor))) ''paragraph'' = Some {''blockIndent''}"
    by (simp add: schema_example(2))
  from u r k a b show ?thesis by simp
qed

text \<open>
  C9. On an editor that has the \<^verbatim>\<open>indent\<close> and \<^verbatim>\<open>outdent\<close> multi-commands and no
  \<^verbatim>\<open>indentBlock\<close> or \<^verbatim>\<open>outdentBlock\<close> command yet, \<^verbatim>\<open>init\<close> followed by \<^verbatim>\<open>afterInit\<close>
  succeeds; the command that \<^verbatim>\<open>init\<close> registered as \<^verbatim>\<open>indentBlock\<close> is then the last child
  of \<^verbatim>\<open>indent\<close>, the one registered as \<^verbatim>\<open>outdentBlock\<close> the last child of \<^verbatim>\<open>outdent\<close>, and
  the schema attribute \<^verbatim>\<open>blockIndent\<close> has the property \<^verbatim>\<open>isFormatting\<close> set to true.
\<close>

theorem afterInit_links_block_commands:
  assumes "commands e ''indent'' = Some (MultiCommand cs)"
      and "commands e ''outdent'' = Some (MultiCommand ds)"
      and "commands e ''indentBlock'' = None"
      and "commands e ''outdentBlock'' = None"
  shows "fst (init e) = None \<and>
         fst (afterInit (snd (init e))) = None \<and>
         (\<exists>ib ob.
            commands (snd (init e)) ''indentBlock'' = Some ib \<and>
            commands (snd (init e)) ''outdentBlock'' = Some ob \<and>
            commands (snd (afterInit (snd (init e)))) ''indent'' = Some (MultiCommand (cs @ [ib])) \<and>
            commands (snd (afterInit (snd (init e)))) ''outdent'' = Some (MultiCommand (ds @ [ob]))) \<and>
         (\<exists>bag. attributeProperties (schema (snd (afterInit (snd (init e))))) ''blockIndent'' = Some bag \<and>
                bag ''isFormatting'' = Some True)"
proof -
  from init_fresh_commands [OF assms(3,4)]
  obtain ib ob where ok: "fst (init e) = None"
    and c: "commands (snd (init e)) = (commands e)(''indentBlock'' \<mapsto> ib, ''outdentBlock'' \<mapsto> ob)"
    by blast
  have 1: "commands (snd (init e)) ''indent'' = Some (MultiCommand cs)"
    and 2: "commands (snd (init e)) ''outdent'' = Some (MultiCommand ds)"
    and 3: "commands (snd (init e)) ''indentBlock'' = Some ib"
    and 4: "commands (snd (init e)) ''outdentBlock'' = Some ob"
    using assms(1,2) by (simp_all add: c)
  have l: "commands (snd (afterInit (snd (init e)))) ''indent'' = Some (MultiCommand (cs @ [ib]))"
          "commands (snd (afterInit (snd (init e)))) ''outdent'' = Some (MultiCommand (ds @ [ob]))"
    by (simp_all add: afterInit_links(2) [OF 1 2 3 4])
  have f: "\<exists>bag. attributeProperties (schema (snd (afterInit (snd (init e))))) ''blockIndent'' = Some bag \<and>
                bag ''isFormatting'' = Some True"
    unfolding afterInit_schema by (rule isFormatting_setAttributeProperties)
  from ok afterInit_links(1) [OF 1 2 3 4] 3 4 l f show ?thesis
    by blast
qed

theorem afterInit_links_block_commands_witness:
  "commands example_editor ''indent'' = Some (MultiCommand []) \<and>
   commands example_editor ''outdent'' = Some (MultiCommand []) \<and>
   commands example_editor ''indentBlock'' = None \<and>
   commands example_editor ''outdentBlock'' = None \<and>
   fst (afterInit (snd (init example_editor))) = None \<and>
   commands (snd (afterInit (snd (init example_editor)))) ''indent'' =
     Some (MultiCommand [IndentBlockCommand (IndentUsingOffset Forward None None None)]) \<and>
   commands (snd (afterInit (snd (init example_editor)))) ''outdent'' =
     Some (MultiCommand [IndentBlockCommand (IndentUsingOffset Backward None None None)])"
proof -
  from afterInit_links_block_commands [OF commands_example(3,4,1,2)]
  have "fst (afterInit (snd (init example_editor))) = None \<and>
   commands (snd (afterInit (snd (init example_editor)))) ''indent'' =
     Some (MultiCommand [IndentBlockCommand (IndentUsingOffset Forward None None None)]) \<and>
   commands (snd (afterInit (snd (init example_editor)))) ''outdent'' =
     Some (MultiCommand [IndentBlockCommand (IndentUsingOffset Backward None None None)])"
    by (simp add: init_example)
  then show ?thesis
    by (simp add: commands_example)
qed

section \<open>The constructor's defaults\<close>

text \<open>
  C5. The claim is that after construction without user configuration \<^verbatim>\<open>indentBlock\<close>
  reads \<^verbatim>\<open>attribute = 'margin-left'\<close>, \<^verbatim>\<open>offset = 40\<close>, \<^verbatim>\<open>unit = 'px'\<close>. The literal of the
  source separates \<^verbatim>\<open>attribute\<close> from its value with a full-width colon, so it is not an
  object literal: on the example editor the constructor ends in a syntax error and the
  configuration keeps all of its fields undefined.
\<close>

theorem constructor_defines_no_defaults:
  "constructor example_editor = (Some SyntaxError, example_editor) \<and>
   config_indentBlock (snd (constructor example_editor)) =
     \<lparr>attribute = None, offset = None, unit = None, classes = None\<rparr> \<and>
   config_indentBlock (snd (constructor example_editor)) \<noteq> documented_defaults"
  by (simp add: constructor_fails) (simp add: example_editor_def documented_defaults_def)

end
